theory Spec2Isabelle
  imports Complex_Main "HOL-Library.Char_ord" "HOL-Library.List_Lexorder"
begin

section \<open>JavaScript strings\<close>

text \<open>
  The server of \<^verbatim>\<open>src/index.ts\<close> handles JavaScript strings, which are sequences of
  UTF-16 code units. The model is \<^typ>\<open>string\<close> with one \<^typ>\<open>char\<close> per code unit, so it
  covers the strings whose code units lie in U+0000..U+00FF. On that range
  \<^item> the white space of \<^verbatim>\<open>\s\<close> and of \<^verbatim>\<open>trim()\<close> (WhiteSpace and LineTerminator) is
    HT, LF, VT, FF, CR, SP and NBSP;
  \<^item> the word characters of \<^verbatim>\<open>\b\<close> are the ASCII letters, the digits and the underscore;
  \<^item> \<^verbatim>\<open>toLowerCase()\<close> moves A-Z, U+00C0..U+00D6 and U+00D8..U+00DE up by 32 and leaves
    every other code unit alone;
  \<^item> the canonical form that a regular expression with the flag \<^verbatim>\<open>i\<close> (and without
    \<^verbatim>\<open>u\<close>) compares is the upper case of a code unit, when that is one code unit and the
    step does not lead from a non-ASCII unit to an ASCII one.
\<close>

definition isWhiteSpace :: "char \<Rightarrow> bool" where
  "isWhiteSpace c \<longleftrightarrow> of_char c \<in> {9, 10, 11, 12, 13, 32, 160 :: nat}"

definition isWordChar :: "char \<Rightarrow> bool" where
  "isWordChar c \<longleftrightarrow>
     (let n = of_char c :: nat in
      (65 \<le> n \<and> n \<le> 90) \<or> (97 \<le> n \<and> n \<le> 122) \<or> (48 \<le> n \<and> n \<le> 57) \<or> n = 95)"

definition toLowerCase_unit :: "char \<Rightarrow> char" where
  "toLowerCase_unit c =
     (let n = of_char c :: nat in
      if (65 \<le> n \<and> n \<le> 90) \<or> (192 \<le> n \<and> n \<le> 214) \<or> (216 \<le> n \<and> n \<le> 222)
      then char_of (n + 32) else c)"

definition toLowerCase :: "string \<Rightarrow> string" where
  "toLowerCase s = map toLowerCase_unit s"

definition trimStart :: "string \<Rightarrow> string" where
  "trimStart s = dropWhile isWhiteSpace s"

definition trimEnd :: "string \<Rightarrow> string" where
  "trimEnd s = rev (dropWhile isWhiteSpace (rev s))"

definition trim :: "string \<Rightarrow> string" where
  "trim s = trimEnd (trimStart s)"

definition startsWith :: "string \<Rightarrow> string \<Rightarrow> bool" where
  "startsWith s searchString \<longleftrightarrow> take (length searchString) s = searchString"

text \<open>
  Canonicalize of the regular expression semantics, as a code unit number: the upper case
  of y-diaeresis (U+00FF) is U+0178 and that of the micro sign (U+00B5) is U+039C, both
  outside the range of \<^typ>\<open>char\<close>; sharp s (U+00DF) has a two-unit upper case and stays.
\<close>

definition Canonicalize :: "char \<Rightarrow> nat" where
  "Canonicalize c =
     (let n = of_char c :: nat in
      if (97 \<le> n \<and> n \<le> 122) \<or> (224 \<le> n \<and> n \<le> 246) \<or> (248 \<le> n \<and> n \<le> 254) then n - 32
      else if n = 255 then 376
      else if n = 181 then 924
      else n)"

section \<open>The dangerous pattern\<close>

text \<open>
  \<^verbatim>\<open>/\b(DROP|DELETE|TRUNCATE|ALTER|CREATE|INSERT|UPDATE)\s+/i\<close>, line 217. The expression has
  no flag \<^verbatim>\<open>g\<close> or \<^verbatim>\<open>y\<close>, so \<^verbatim>\<open>test\<close> keeps no position between calls: it asks whether
  the pattern matches at some index of the string.
\<close>

definition dangerous_keywords :: "string list" where
  "dangerous_keywords = [''DROP'', ''DELETE'', ''TRUNCATE'', ''ALTER'', ''CREATE'', ''INSERT'', ''UPDATE'']"

text \<open>
  \<^verbatim>\<open>\b\<close> holds at a position when exactly one of the code unit before it and the code unit
  at it is a word character; the ends of the string count as non-word.
\<close>

definition word_boundary :: "char option \<Rightarrow> string \<Rightarrow> bool" where
  "word_boundary prev s \<longleftrightarrow>
     (case prev of None \<Rightarrow> False | Some c \<Rightarrow> isWordChar c)
       \<noteq> (case s of [] \<Rightarrow> False | c # _ \<Rightarrow> isWordChar c)"

text \<open>A literal of the pattern against the input, unit by unit in canonical form; the
  result is the input left after the literal.\<close>

fun match_literal :: "string \<Rightarrow> string \<Rightarrow> string option" where
  "match_literal [] s = Some s"
| "match_literal (k # ks) [] = None"
| "match_literal (k # ks) (c # cs) =
     (if Canonicalize c = Canonicalize k then match_literal ks cs else None)"

text \<open>\<^verbatim>\<open>\s+\<close> ends the pattern, so it matches as soon as one white space unit follows.\<close>

definition white_space_plus :: "string \<Rightarrow> bool" where
  "white_space_plus s \<longleftrightarrow> (case s of [] \<Rightarrow> False | c # _ \<Rightarrow> isWhiteSpace c)"

text \<open>The pattern at one position: \<open>prev\<close> is the code unit before the position,
  \<open>s\<close> the input from the position on.\<close>

definition match_here :: "char option \<Rightarrow> string \<Rightarrow> bool" where
  "match_here prev s \<longleftrightarrow>
     word_boundary prev s \<and>
     list_ex (\<lambda>k. case match_literal k s of None \<Rightarrow> False | Some rest \<Rightarrow> white_space_plus rest)
       dangerous_keywords"

fun search :: "char option \<Rightarrow> string \<Rightarrow> bool" where
  "search prev [] = match_here prev []"
| "search prev (c # cs) = (match_here prev (c # cs) \<or> search (Some c) cs)"

definition dangerous_pattern_test :: "string \<Rightarrow> bool" where
  "dangerous_pattern_test sql = search None sql"

definition dangerousPatterns :: "(string \<Rightarrow> bool) list" where
  "dangerousPatterns = [dangerous_pattern_test]"

definition isDangerous :: "string \<Rightarrow> bool" where
  "isDangerous sql = list_ex (\<lambda>pattern. pattern sql) dangerousPatterns"

section \<open>Values, validation and errors\<close>

text \<open>
  The arguments of a tool call and the rows of a result are JSON values. Numbers are
  \<^typ>\<open>real\<close>: the handlers only compare them with zero. An object is the list of its
  properties, with distinct keys as in a JavaScript object; \<^const>\<open>map_of\<close> reads a
  property, \<^const>\<open>None\<close> being \<^verbatim>\<open>undefined\<close>.
\<close>

datatype json =
  JNull | JBool bool | JNum real | JStr string | JArr "json list" | JObj "(string \<times> json) list"

text \<open>
  The zod schemas. A failed \<^verbatim>\<open>safeParse\<close> carries the issues found, each with its code,
  the path of the value and the message the schema gives for it (\<^const>\<open>None\<close> when the
  library's default text applies). The issues of all properties are collected.
\<close>

datatype ZodIssueCode = invalid_type | too_small

datatype ZodIssue = ZodIssue ZodIssueCode "string list" "string option"

type_synonym 'a ZodType = "string list \<Rightarrow> json option \<Rightarrow> ZodIssue list + 'a"

definition z_string :: "string ZodType" where
  "z_string path v = (case v of Some (JStr s) \<Rightarrow> Inr s | _ \<Rightarrow> Inl [ZodIssue invalid_type path None])"

definition z_string_min :: "nat \<Rightarrow> string \<Rightarrow> string ZodType" where
  "z_string_min n message path v =
     (case v of
        Some (JStr s) \<Rightarrow> if n \<le> length s then Inr s else Inl [ZodIssue too_small path (Some message)]
      | _ \<Rightarrow> Inl [ZodIssue invalid_type path None])"

definition z_number_positive :: "real ZodType" where
  "z_number_positive path v =
     (case v of
        Some (JNum x) \<Rightarrow> if 0 < x then Inr x else Inl [ZodIssue too_small path None]
      | _ \<Rightarrow> Inl [ZodIssue invalid_type path None])"

definition z_array_any :: "json list ZodType" where
  "z_array_any path v = (case v of Some (JArr xs) \<Rightarrow> Inr xs | _ \<Rightarrow> Inl [ZodIssue invalid_type path None])"

definition z_optional :: "'a ZodType \<Rightarrow> 'a option ZodType" where
  "z_optional t path v =
     (case v of None \<Rightarrow> Inr None
      | Some _ \<Rightarrow> (case t path v of Inl issues \<Rightarrow> Inl issues | Inr x \<Rightarrow> Inr (Some x)))"

text \<open>\<^verbatim>\<open>t.optional().default(d)\<close>: an absent value becomes \<open>d\<close>, a present one is parsed by \<open>t\<close>.\<close>

definition z_optional_default :: "'a ZodType \<Rightarrow> 'a \<Rightarrow> 'a ZodType" where
  "z_optional_default t d path v = (case v of None \<Rightarrow> Inr d | Some _ \<Rightarrow> t path v)"

definition issues_of :: "ZodIssue list + 'a \<Rightarrow> ZodIssue list" where
  "issues_of r = (case r of Inl issues \<Rightarrow> issues | Inr _ \<Rightarrow> [])"

definition z_object2 :: "ZodIssue list + 'a \<Rightarrow> ZodIssue list + 'b \<Rightarrow> ZodIssue list + ('a \<times> 'b)" where
  "z_object2 ra rb =
     (case ra of
        Inr a \<Rightarrow> (case rb of Inr b \<Rightarrow> Inr (a, b) | Inl _ \<Rightarrow> Inl (issues_of ra @ issues_of rb))
      | Inl _ \<Rightarrow> Inl (issues_of ra @ issues_of rb))"

definition z_object3 ::
  "ZodIssue list + 'a \<Rightarrow> ZodIssue list + 'b \<Rightarrow> ZodIssue list + 'c \<Rightarrow> ZodIssue list + ('a \<times> 'b \<times> 'c)" where
  "z_object3 ra rb rc =
     (case z_object2 ra (z_object2 rb rc) of Inl issues \<Rightarrow> Inl issues | Inr abc \<Rightarrow> Inr abc)"

text \<open>\<^verbatim>\<open>QuerySchema\<close>, lines 19-22: the parsed value is the pair of \<^verbatim>\<open>sql\<close> and \<^verbatim>\<open>params\<close>.\<close>

definition QuerySchema :: "json option \<Rightarrow> ZodIssue list + (string \<times> json list)" where
  "QuerySchema args =
     (case args of
        Some (JObj props) \<Rightarrow>
          z_object2
            (z_string_min 1 ''SQL query cannot be empty'' [''sql''] (map_of props ''sql''))
            (z_optional_default z_array_any [] [''params''] (map_of props ''params''))
      | _ \<Rightarrow> Inl [ZodIssue invalid_type [] None])"

text \<open>\<^verbatim>\<open>TableSchema\<close>, lines 24-27: the parsed value is the pair of \<^verbatim>\<open>schema\<close> and
  \<^verbatim>\<open>table\<close>, the latter optional.\<close>

definition TableSchema :: "json option \<Rightarrow> ZodIssue list + (string \<times> string option)" where
  "TableSchema args =
     (case args of
        Some (JObj props) \<Rightarrow>
          z_object2
            (z_optional_default z_string ''public'' [''schema''] (map_of props ''schema''))
            (z_optional z_string [''table''] (map_of props ''table''))
      | _ \<Rightarrow> Inl [ZodIssue invalid_type [] None])"

text \<open>\<^verbatim>\<open>TableSchema.required({ table: true })\<close>, line 296: \<^verbatim>\<open>required\<close> takes the
  \<^verbatim>\<open>optional()\<close> off \<^verbatim>\<open>table\<close>, which leaves \<^verbatim>\<open>z.string()\<close> with no length check.\<close>

definition TableSchema_required_table :: "json option \<Rightarrow> ZodIssue list + (string \<times> string)" where
  "TableSchema_required_table args =
     (case args of
        Some (JObj props) \<Rightarrow>
          z_object2
            (z_optional_default z_string ''public'' [''schema''] (map_of props ''schema''))
            (z_string [''table''] (map_of props ''table''))
      | _ \<Rightarrow> Inl [ZodIssue invalid_type [] None])"

text \<open>The schema local to \<^verbatim>\<open>getTableData\<close>, lines 359-363: \<^verbatim>\<open>table\<close>, \<^verbatim>\<open>schema\<close>,
  \<^verbatim>\<open>limit\<close>.\<close>

definition getTableData_schema :: "json option \<Rightarrow> ZodIssue list + (string \<times> string \<times> real)" where
  "getTableData_schema args =
     (case args of
        Some (JObj props) \<Rightarrow>
          z_object3
            (z_string_min 1 ''Table name cannot be empty'' [''table''] (map_of props ''table''))
            (z_optional_default z_string ''public'' [''schema''] (map_of props ''schema''))
            (z_optional_default z_number_positive 10 [''limit''] (map_of props ''limit''))
      | _ \<Rightarrow> Inl [ZodIssue invalid_type [] None])"

text \<open>
  What a handler throws: an \<^verbatim>\<open>McpError\<close> with its code and message, or another error, as
  the driver raises, with its message. The message of a validation failure is the template
  \<^verbatim>\<open>`Invalid parameters: ${validation.error.message}`\<close>, kept with the issues that zod
  renders into it.
\<close>

datatype ErrorCode = InvalidParams | MethodNotFound | InternalError

datatype Message = Text string | Invalid_parameters "ZodIssue list"

datatype thrown = McpError ErrorCode Message | Error string

text \<open>
  A response is \<^verbatim>\<open>{ content: [{ type: "text", text: JSON.stringify(value, null, 2) }] }\<close>.
  The text is kept as the value that is serialised. \<^verbatim>\<open>JSON.stringify\<close> leaves out the
  properties of an object whose value is \<^verbatim>\<open>undefined\<close>: an object literal is written with
  optional values, \<^const>\<open>None\<close> being \<^verbatim>\<open>undefined\<close>, and \<open>object_literal\<close> keeps the
  properties that the text has.
\<close>

datatype JSON_text = JSON_stringify json

record ContentItem =
  item_type :: string
  item_text :: JSON_text

record ToolResponse =
  content :: "ContentItem list"

definition text_response :: "json \<Rightarrow> ToolResponse" where
  "text_response v = \<lparr>content = [\<lparr>item_type = ''text'', item_text = JSON_stringify v\<rparr>]\<rparr>"

fun defined_properties :: "(string \<times> json option) list \<Rightarrow> (string \<times> json) list" where
  "defined_properties [] = []"
| "defined_properties ((k, None) # ps) = defined_properties ps"
| "defined_properties ((k, Some v) # ps) = (k, v) # defined_properties ps"

definition object_literal :: "(string \<times> json option) list \<Rightarrow> json" where
  "object_literal ps = JObj (defined_properties ps)"

section \<open>The connection pool and the driver\<close>

text \<open>
  The pool is the one object shared between calls. Its state counts the calls of
  \<^verbatim>\<open>pool.connect()\<close>, the clients handed out and the clients released, and records the
  statements sent with their parameters. What the database does is a parameter: whether
  \<^verbatim>\<open>connect\<close> yields a client or rejects with a message, and what \<^verbatim>\<open>client.query\<close>
  answers, both as functions of the pool's history.
\<close>

record Pool =
  connect_calls :: nat
  acquired :: nat
  released :: nat
  queries :: "(string \<times> json list) list"

record FieldDef =
  name :: string
  dataTypeID :: int

text \<open>
  One result of the driver has \<^verbatim>\<open>rows\<close>, \<^verbatim>\<open>rowCount\<close> (a number or \<^verbatim>\<open>null\<close>) and
  \<^verbatim>\<open>fields\<close>. \<^verbatim>\<open>client.query\<close> resolves to one result, or to the array of the results
  when the text holds several statements and goes out without parameters; the array has
  none of the three properties, so reading them gives \<^verbatim>\<open>undefined\<close>.
\<close>

datatype QueryResult =
  QueryResult (rows: "json list") (rowCount: "int option") (fields: "FieldDef list")

datatype DriverResult = Result QueryResult | Results "QueryResult list"

definition property_rows :: "DriverResult \<Rightarrow> json option" where
  "property_rows result = (case result of Result r \<Rightarrow> Some (JArr (rows r)) | Results _ \<Rightarrow> None)"

definition property_rowCount :: "DriverResult \<Rightarrow> json option" where
  "property_rowCount result =
     (case result of
        Result r \<Rightarrow> Some (case rowCount r of None \<Rightarrow> JNull | Some n \<Rightarrow> JNum (of_int n))
      | Results _ \<Rightarrow> None)"

definition property_fields :: "DriverResult \<Rightarrow> FieldDef list option" where
  "property_fields result = (case result of Result r \<Rightarrow> Some (fields r) | Results _ \<Rightarrow> None)"

datatype Driver =
  Driver (connect: "Pool \<Rightarrow> string option")
         (query: "Pool \<Rightarrow> string \<Rightarrow> json list \<Rightarrow> string + DriverResult")

definition pool_connect :: "Driver \<Rightarrow> Pool \<Rightarrow> (thrown + unit) \<times> Pool" where
  "pool_connect d p =
     (let p' = p\<lparr>connect_calls := connect_calls p + 1\<rparr> in
      case connect d p of
        Some m \<Rightarrow> (Inl (Error m), p')
      | None \<Rightarrow> (Inr (), p'\<lparr>acquired := acquired p' + 1\<rparr>))"

definition client_query ::
  "Driver \<Rightarrow> string \<Rightarrow> json list \<Rightarrow> Pool \<Rightarrow> (thrown + DriverResult) \<times> Pool" where
  "client_query d text values p =
     (let p' = p\<lparr>queries := queries p @ [(text, values)]\<rparr> in
      case query d p text values of
        Inl m \<Rightarrow> (Inl (Error m), p')
      | Inr result \<Rightarrow> (Inr result, p'))"

definition client_release :: "Pool \<Rightarrow> Pool" where
  "client_release p = p\<lparr>released := released p + 1\<rparr>"

section \<open>The tool handlers\<close>

text \<open>A template literal that runs over several source lines holds their line feeds.\<close>

fun join_lines :: "string list \<Rightarrow> string" where
  "join_lines [] = []"
| "join_lines [l] = l"
| "join_lines (l # ls) = l @ [CHR 0x0A] @ join_lines ls"

text \<open>
  \<^verbatim>\<open>executeQuery\<close>, lines 204-253. The connection is taken inside \<^verbatim>\<open>try\<close>; \<^verbatim>\<open>finally\<close>
  releases the client when \<^verbatim>\<open>connect\<close> has yielded one. \<^verbatim>\<open>result.fields?.map(...)\<close> maps
  the fields when the result has them and is \<^verbatim>\<open>undefined\<close> otherwise.
\<close>

definition field_json :: "FieldDef \<Rightarrow> json" where
  "field_json field = JObj [(''name'', JStr (name field)), (''dataTypeID'', JNum (of_int (dataTypeID field)))]"

definition executeQuery :: "Driver \<Rightarrow> json option \<Rightarrow> Pool \<Rightarrow> (thrown + ToolResponse) \<times> Pool" where
  "executeQuery d args p =
     (case QuerySchema args of
        Inl issues \<Rightarrow> (Inl (McpError InvalidParams (Invalid_parameters issues)), p)
      | Inr (sql, params) \<Rightarrow>
          if isDangerous sql \<and> \<not> startsWith (toLowerCase (trim sql)) ''select''
          then (Inl (McpError InvalidParams
                  (Text ''Only SELECT queries are allowed for security reasons'')), p)
          else
            (case pool_connect d p of
               (Inl e, p1) \<Rightarrow> (Inl e, p1)
             | (Inr _, p1) \<Rightarrow>
                 (case client_query d sql params p1 of
                    (Inl e, p2) \<Rightarrow> (Inl e, client_release p2)
                  | (Inr result, p2) \<Rightarrow>
                      (Inr (text_response (object_literal
                         [(''rows'', property_rows result),
                          (''rowCount'', property_rowCount result),
                          (''fields'', (case property_fields result of
                                          None \<Rightarrow> None
                                        | Some fs \<Rightarrow> Some (JArr (map field_json fs))))])),
                       client_release p2))))"

text \<open>\<^verbatim>\<open>listTables\<close>, lines 255-293.\<close>

definition listTables_sql :: string where
  "listTables_sql = join_lines
     [''SELECT table_name, table_type '',
      ''         FROM information_schema.tables '',
      ''         WHERE table_schema = $1 '',
      ''         ORDER BY table_name'']"

definition listTables :: "Driver \<Rightarrow> json option \<Rightarrow> Pool \<Rightarrow> (thrown + ToolResponse) \<times> Pool" where
  "listTables d args p =
     (case TableSchema args of
        Inl issues \<Rightarrow> (Inl (McpError InvalidParams (Invalid_parameters issues)), p)
      | Inr (schema, _) \<Rightarrow>
          (case pool_connect d p of
             (Inl e, p1) \<Rightarrow> (Inl e, p1)
           | (Inr _, p1) \<Rightarrow>
               (case client_query d listTables_sql [JStr schema] p1 of
                  (Inl e, p2) \<Rightarrow> (Inl e, client_release p2)
                | (Inr result, p2) \<Rightarrow>
                    (Inr (text_response (object_literal
                       [(''schema'', Some (JStr schema)), (''tables'', property_rows result)])),
                     client_release p2))))"

text \<open>\<^verbatim>\<open>describeTable\<close>, lines 295-356: two statements on one client.\<close>

definition columns_sql :: string where
  "columns_sql = join_lines
     [''SELECT '',
      ''           column_name,'',
      ''           data_type,'',
      ''           is_nullable,'',
      ''           column_default,'',
      ''           character_maximum_length,'',
      ''           numeric_precision,'',
      ''           numeric_scale'',
      ''         FROM information_schema.columns '',
      ''         WHERE table_schema = $1 AND table_name = $2'',
      ''         ORDER BY ordinal_position'']"

definition constraints_sql :: string where
  "constraints_sql = join_lines
     [''SELECT '',
      ''           tc.constraint_name,'',
      ''           tc.constraint_type,'',
      ''           kcu.column_name'',
      ''         FROM information_schema.table_constraints tc'',
      ''         JOIN information_schema.key_column_usage kcu '',
      ''           ON tc.constraint_name = kcu.constraint_name'',
      ''         WHERE tc.table_schema = $1 AND tc.table_name = $2'']"

definition describeTable :: "Driver \<Rightarrow> json option \<Rightarrow> Pool \<Rightarrow> (thrown + ToolResponse) \<times> Pool" where
  "describeTable d args p =
     (case TableSchema_required_table args of
        Inl issues \<Rightarrow> (Inl (McpError InvalidParams (Invalid_parameters issues)), p)
      | Inr (schema, table) \<Rightarrow>
          (case pool_connect d p of
             (Inl e, p1) \<Rightarrow> (Inl e, p1)
           | (Inr _, p1) \<Rightarrow>
               (case client_query d columns_sql [JStr schema, JStr table] p1 of
                  (Inl e, p2) \<Rightarrow> (Inl e, client_release p2)
                | (Inr columnsResult, p2) \<Rightarrow>
                    (case client_query d constraints_sql [JStr schema, JStr table] p2 of
                       (Inl e, p3) \<Rightarrow> (Inl e, client_release p3)
                     | (Inr constraintsResult, p3) \<Rightarrow>
                         (Inr (text_response (object_literal
                            [(''table'', Some (JStr (schema @ ''.'' @ table))),
                             (''columns'', property_rows columnsResult),
                             (''constraints'', property_rows constraintsResult)])),
                          client_release p3)))))"

text \<open>\<^verbatim>\<open>getTableData\<close>, lines 358-403: the schema and table names are written into the
  statement, the limit is bound as \<^verbatim>\<open>$1\<close>.\<close>

definition getTableData :: "Driver \<Rightarrow> json option \<Rightarrow> Pool \<Rightarrow> (thrown + ToolResponse) \<times> Pool" where
  "getTableData d args p =
     (case getTableData_schema args of
        Inl issues \<Rightarrow> (Inl (McpError InvalidParams (Invalid_parameters issues)), p)
      | Inr (table, schemaName, limit) \<Rightarrow>
          (case pool_connect d p of
             (Inl e, p1) \<Rightarrow> (Inl e, p1)
           | (Inr _, p1) \<Rightarrow>
               (case client_query d (''SELECT * FROM '' @ schemaName @ ''.'' @ table @ '' LIMIT $1'')
                       [JNum limit] p1 of
                  (Inl e, p2) \<Rightarrow> (Inl e, client_release p2)
                | (Inr result, p2) \<Rightarrow>
                    (Inr (text_response (object_literal
                       [(''table'', Some (JStr (schemaName @ ''.'' @ table))),
                        (''limit'', Some (JNum limit)),
                        (''rowCount'', property_rowCount result),
                        (''data'', property_rows result)])),
                     client_release p2))))"

text \<open>
  The handler of \<^verbatim>\<open>CallToolRequestSchema\<close>, lines 167-201: the switch on the tool name, and
  the \<^verbatim>\<open>catch\<close> that passes an \<^verbatim>\<open>McpError\<close> on and wraps any other error as
  \<^verbatim>\<open>InternalError\<close>. (The \<^verbatim>\<open>console.error\<close> of the second case is not modelled.)
\<close>

definition switch_tool ::
  "Driver \<Rightarrow> string \<Rightarrow> json option \<Rightarrow> Pool \<Rightarrow> (thrown + ToolResponse) \<times> Pool" where
  "switch_tool d tool args p =
     (if tool = ''query_database'' then executeQuery d args p
      else if tool = ''list_tables'' then listTables d args p
      else if tool = ''describe_table'' then describeTable d args p
      else if tool = ''get_table_data'' then getTableData d args p
      else (Inl (McpError MethodNotFound (Text (''Unknown tool: '' @ tool))), p))"

definition callTool ::
  "Driver \<Rightarrow> string \<Rightarrow> json option \<Rightarrow> Pool \<Rightarrow> (thrown + ToolResponse) \<times> Pool" where
  "callTool d tool args p =
     (case switch_tool d tool args p of
        (Inl (McpError code message), p') \<Rightarrow> (Inl (McpError code message), p')
      | (Inl (Error message), p') \<Rightarrow>
          (Inl (McpError InternalError (Text (''Failed to execute '' @ tool @ '': '' @ message))), p')
      | (Inr response, p') \<Rightarrow> (Inr response, p'))"

section \<open>Concrete collaborators\<close>

text \<open>A pool that has not been used, a database that answers every statement with an
  empty result, one whose statements all fail, and one that refuses every connection.\<close>

definition fresh_pool :: Pool where
  "fresh_pool = \<lparr>connect_calls = 0, acquired = 0, released = 0, queries = []\<rparr>"

definition empty_database :: Driver where
  "empty_database = Driver (\<lambda>_. None) (\<lambda>_ _ _. Inr (Result (QueryResult [] (Some 0) [])))"

definition failing_database :: Driver where
  "failing_database = Driver (\<lambda>_. None) (\<lambda>_ _ _. Inl ''connection terminated'')"

definition unreachable_database :: Driver where
  "unreachable_database = Driver (\<lambda>_. Some ''connect ECONNREFUSED'') (\<lambda>_ _ _. Inl ''no client'')"

text \<open>A database that answers the text \<^verbatim>\<open>SELECT 1; SELECT 2\<close>, sent without parameters,
  with the array of the results of its two statements, and every other statement with an
  empty result.\<close>

definition one_column :: "int \<Rightarrow> QueryResult" where
  "one_column n =
     QueryResult [JObj [(''?column?'', JNum (of_int n))]] (Some 1)
       [\<lparr>name = ''?column?'', dataTypeID = 23\<rparr>]"

definition two_statement_database :: Driver where
  "two_statement_database = Driver (\<lambda>_. None)
     (\<lambda>_ text values.
        if text = ''SELECT 1; SELECT 2'' \<and> values = []
        then Inr (Results [one_column 1, one_column 2])
        else Inr (Result (QueryResult [] (Some 0) [])))"

section \<open>A database for the statement of \<^verbatim>\<open>listTables\<close>\<close>

text \<open>
  \<^verbatim>\<open>listTables\<close> leaves the order of the tables to the database: it asks for it in the
  text of its statement. To state what the tool returns, the database is modelled for
  statements of this one form,
  \<^verbatim>\<open>SELECT table_name, table_type FROM information_schema.tables WHERE table_schema = $1\<close>,
  with or without a closing \<^verbatim>\<open>ORDER BY table_name\<close>. The catalog is the list of the
  relations with their schema, name and type, in the order in which the database scans
  them. The statement is read as words separated by white space, with the comma and the
  equals sign words of their own; the rows are the relations of the schema bound to
  \<^verbatim>\<open>$1\<close>, in catalog order without \<^verbatim>\<open>ORDER BY\<close> and in ascending order of the name
  (code unit by code unit, the collation of the type \<^verbatim>\<open>name\<close>) with it. Any other
  statement is answered by an error.
\<close>

datatype relation = Relation (rel_schema: string) (rel_name: string) (rel_type: string)

definition sql_space :: "char \<Rightarrow> bool" where
  "sql_space c \<longleftrightarrow> of_char c \<in> {9, 10, 12, 13, 32 :: nat}"

fun sql_words :: "string \<Rightarrow> string \<Rightarrow> string list" where
  "sql_words w [] = (if w = [] then [] else [w])"
| "sql_words w (c # cs) =
     (if sql_space c then (if w = [] then sql_words [] cs else w # sql_words [] cs)
      else if c = CHR '','' \<or> c = CHR ''=''
      then (if w = [] then [c] # sql_words [] cs else w # [c] # sql_words [] cs)
      else sql_words (w @ [c]) cs)"

definition select_tables_of_schema :: "string list" where
  "select_tables_of_schema =
     [''SELECT'', ''table_name'', '','', ''table_type'', ''FROM'', ''information_schema.tables'',
      ''WHERE'', ''table_schema'', ''='', ''$1'']"

definition tables_row :: "relation \<Rightarrow> json" where
  "tables_row r = JObj [(''table_name'', JStr (rel_name r)), (''table_type'', JStr (rel_type r))]"

definition tables_result :: "relation list \<Rightarrow> QueryResult" where
  "tables_result rs =
     QueryResult (map tables_row rs) (Some (int (length rs)))
       [\<lparr>name = ''table_name'', dataTypeID = 19\<rparr>, \<lparr>name = ''table_type'', dataTypeID = 1043\<rparr>]"

definition run_statement :: "relation list \<Rightarrow> string \<Rightarrow> json list \<Rightarrow> string + DriverResult" where
  "run_statement catalog text values =
     (case values of
        [JStr schema] \<Rightarrow>
          if sql_words [] text = select_tables_of_schema
          then Inr (Result (tables_result (filter (\<lambda>r. rel_schema r = schema) catalog)))
          else if sql_words [] text = select_tables_of_schema @ [''ORDER'', ''BY'', ''table_name'']
          then Inr (Result (tables_result
                 (sort_key rel_name (filter (\<lambda>r. rel_schema r = schema) catalog))))
          else Inl ''statement outside the model''
      | _ \<Rightarrow> Inl ''statement outside the model'')"

definition database :: "relation list \<Rightarrow> Driver" where
  "database catalog = Driver (\<lambda>_. None) (\<lambda>_ text values. run_statement catalog text values)"

definition weather_catalog :: "relation list" where
  "weather_catalog =
     [Relation ''public'' ''weather_data'' ''BASE TABLE'',
      Relation ''audit'' ''log'' ''BASE TABLE'',
      Relation ''public'' ''stations'' ''BASE TABLE'']"

section \<open>Notions of the properties\<close>

text \<open>The code units of the pattern's literals are ASCII capitals.\<close>

definition ascii_upper :: "char \<Rightarrow> bool" where
  "ascii_upper k \<longleftrightarrow> 65 \<le> (of_char k :: nat) \<and> (of_char k :: nat) \<le> 90"

text \<open>Between two states of the pool, either no client was handed out and none released,
  or one was handed out and one released.\<close>

definition one_in_one_out :: "Pool \<Rightarrow> Pool \<Rightarrow> bool" where
  "one_in_one_out p p' \<longleftrightarrow>
     (acquired p' = acquired p \<and> released p' = released p) \<or>
     (acquired p' = acquired p + 1 \<and> released p' = released p + 1)"

text \<open>What a client reads back from a \<^verbatim>\<open>list_tables\<close> response: the \<^verbatim>\<open>tables\<close> of the
  payload, and the \<^verbatim>\<open>table_name\<close> of a row.\<close>

definition response_tables :: "thrown + ToolResponse \<Rightarrow> json list" where
  "response_tables r =
     (case r of
        Inr response \<Rightarrow>
          (case content response of
             [item] \<Rightarrow>
               (case item_text item of
                  JSON_stringify (JObj props) \<Rightarrow>
                    (case map_of props ''tables'' of Some (JArr ts) \<Rightarrow> ts | _ \<Rightarrow> [])
                | _ \<Rightarrow> [])
           | _ \<Rightarrow> [])
      | Inl _ \<Rightarrow> [])"

definition table_name :: "json \<Rightarrow> string" where
  "table_name row =
     (case row of
        JObj props \<Rightarrow> (case map_of props ''table_name'' of Some (JStr s) \<Rightarrow> s | _ \<Rightarrow> [])
      | _ \<Rightarrow> [])"

section \<open>Argument validation\<close>

lemmas zod_defs = z_string_def z_string_min_def z_number_positive_def z_array_any_def
  z_optional_def z_optional_default_def issues_of_def z_object2_def z_object3_def

lemmas pool_defs = pool_connect_def client_query_def client_release_def Let_def

lemmas result_defs = object_literal_def property_rows_def property_rowCount_def
  property_fields_def

lemmas pattern_defs = isDangerous_def dangerousPatterns_def dangerous_pattern_test_def
  match_here_def word_boundary_def dangerous_keywords_def isWordChar_def Canonicalize_def
  white_space_plus_def isWhiteSpace_def

text \<open>
  C9. \<^verbatim>\<open>query_database\<close> with \<^verbatim>\<open>sql\<close> the empty string fails with \<^verbatim>\<open>InvalidParams\<close>,
  whatever the other arguments are, and the pool is left as it was: no call of
  \<^verbatim>\<open>connect\<close>, no client, no statement.
\<close>

theorem empty_sql_invalid_params:
  assumes "args = Some (JObj props)" and "map_of props ''sql'' = Some (JStr '''')"
  shows "callTool d ''query_database'' args p =
           (Inl (McpError InvalidParams (Invalid_parameters (issues_of (QuerySchema args)))), p)"
  using assms
  by (simp add: callTool_def switch_tool_def executeQuery_def QuerySchema_def zod_defs
      split: option.splits json.splits sum.splits)

theorem empty_sql_invalid_params_witness:
  "callTool empty_database ''query_database'' (Some (JObj [(''sql'', JStr '''')])) fresh_pool =
     (Inl (McpError InvalidParams
        (Invalid_parameters [ZodIssue too_small [''sql''] (Some ''SQL query cannot be empty'')])),
      fresh_pool)"
  using empty_sql_invalid_params [of "Some (JObj [(''sql'', JStr '''')])" "[(''sql'', JStr '''')]"
      empty_database fresh_pool]
  by (simp add: QuerySchema_def zod_defs)

text \<open>
  C7. \<^verbatim>\<open>get_table_data\<close> fails with \<^verbatim>\<open>InvalidParams\<close> whenever \<^verbatim>\<open>table\<close> is the empty
  string or \<^verbatim>\<open>limit\<close> is a number that is zero or negative, and the pool is left as it
  was: no connection is acquired.
\<close>

theorem get_table_data_invalid_params:
  assumes "args = Some (JObj props)"
    and "map_of props ''table'' = Some (JStr '''') \<or>
         (map_of props ''limit'' = Some (JNum x) \<and> x \<le> 0)"
  shows "callTool d ''get_table_data'' args p =
           (Inl (McpError InvalidParams (Invalid_parameters (issues_of (getTableData_schema args)))), p)"
  using assms
  by (auto simp add: callTool_def switch_tool_def getTableData_def getTableData_schema_def zod_defs
      split: option.splits json.splits sum.splits)

theorem get_table_data_invalid_params_witness:
  "callTool empty_database ''get_table_data'' (Some (JObj [(''table'', JStr '''')])) fresh_pool =
     (Inl (McpError InvalidParams
        (Invalid_parameters [ZodIssue too_small [''table''] (Some ''Table name cannot be empty'')])),
      fresh_pool) \<and>
   callTool empty_database ''get_table_data''
       (Some (JObj [(''table'', JStr ''weather_data''), (''limit'', JNum 0)])) fresh_pool =
     (Inl (McpError InvalidParams (Invalid_parameters [ZodIssue too_small [''limit''] None])),
      fresh_pool) \<and>
   callTool empty_database ''get_table_data''
       (Some (JObj [(''table'', JStr ''weather_data''), (''limit'', JNum (- 5))])) fresh_pool =
     (Inl (McpError InvalidParams (Invalid_parameters [ZodIssue too_small [''limit''] None])),
      fresh_pool)"
  using
    get_table_data_invalid_params [of "Some (JObj [(''table'', JStr '''')])" "[(''table'', JStr '''')]"
      0 empty_database fresh_pool]
    get_table_data_invalid_params [of "Some (JObj [(''table'', JStr ''weather_data''), (''limit'', JNum 0)])"
      "[(''table'', JStr ''weather_data''), (''limit'', JNum 0)]" 0 empty_database fresh_pool]
    get_table_data_invalid_params [of "Some (JObj [(''table'', JStr ''weather_data''), (''limit'', JNum (- 5))])"
      "[(''table'', JStr ''weather_data''), (''limit'', JNum (- 5))]" "- 5" empty_database fresh_pool]
  by (simp add: getTableData_schema_def zod_defs)

text \<open>
  \<^verbatim>\<open>describe_table\<close> without a \<^verbatim>\<open>table\<close> (no arguments at all, or an object without the
  property) fails with \<^verbatim>\<open>InvalidParams\<close> and leaves the pool as it was, for every value of
  the other arguments.
\<close>

lemma describe_table_without_table:
  assumes "args = None \<or> (args = Some (JObj props) \<and> map_of props ''table'' = None)"
  shows "callTool d ''describe_table'' args p =
           (Inl (McpError InvalidParams
              (Invalid_parameters (issues_of (TableSchema_required_table args)))), p)"
  using assms
  by (auto simp add: callTool_def switch_tool_def describeTable_def TableSchema_required_table_def
      zod_defs split: option.splits json.splits sum.splits)

text \<open>
  C5. The claim: \<^verbatim>\<open>describe_table\<close> fails with \<^verbatim>\<open>InvalidParams\<close> when \<^verbatim>\<open>table\<close> is missing
  or is the empty string. The code at \<^verbatim>\<open>{ table: "" }\<close>: the schema of \<^verbatim>\<open>describeTable\<close>
  is \<^verbatim>\<open>TableSchema.required({ table: true })\<close>, which has no length check on \<^verbatim>\<open>table\<close>
  (the schema of \<^verbatim>\<open>getTableData\<close> has \<^verbatim>\<open>min(1, "Table name cannot be empty")\<close>, and
  \<^verbatim>\<open>QuerySchema\<close> has \<^verbatim>\<open>min(1)\<close> on \<^verbatim>\<open>sql\<close>). The call passes validation, takes a
  client, sends both statements with the empty name bound as \<^verbatim>\<open>$2\<close> and answers for the
  table \<^verbatim>\<open>public.\<close> instead of failing.
\<close>

theorem describe_table_empty_name_accepted:
  "callTool empty_database ''describe_table'' (Some (JObj [(''table'', JStr '''')])) fresh_pool =
     (Inr (text_response (JObj
        [(''table'', JStr ''public.''), (''columns'', JArr []), (''constraints'', JArr [])])),
      \<lparr>connect_calls = 1, acquired = 1, released = 1,
       queries = [(columns_sql, [JStr ''public'', JStr '''']),
                  (constraints_sql, [JStr ''public'', JStr ''''])]\<rparr>)"
  by (simp add: callTool_def switch_tool_def describeTable_def TableSchema_required_table_def zod_defs
      pool_defs result_defs empty_database_def fresh_pool_def)

section \<open>The guard of \<^verbatim>\<open>executeQuery\<close>\<close>

lemmas string_defs = startsWith_def toLowerCase_def trim_def trimStart_def trimEnd_def
  toLowerCase_unit_def isWhiteSpace_def char_of_eq_iff

text \<open>White space is no letter of \<^verbatim>\<open>select\<close>, so trimming the end as well as the start
  does not change whether the text starts with it.\<close>

lemma white_space_not_in_select:
  "isWhiteSpace c \<Longrightarrow> toLowerCase_unit c \<notin> set ''select''"
  by (auto simp add: isWhiteSpace_def toLowerCase_unit_def)

lemma take_map_append_iff:
  assumes "length w = n" and "\<forall>x\<in>set b. f x \<notin> set w"
  shows "take n (map f (a @ b)) = w \<longleftrightarrow> take n (map f a) = w"
proof (cases "n \<le> length a")
  case True
  then show ?thesis by simp
next
  case False
  show ?thesis
  proof
    assume h: "take n (map f (a @ b)) = w"
    from False h assms(1) have "b \<noteq> []" by auto
    then obtain x xs where b: "b = x # xs" by (cases b) auto
    from False have "take n (map f (a @ b)) ! length a = f x"
      by (simp add: b nth_append)
    with h have "w ! length a = f x" by simp
    moreover from False assms(1) have "length a < length w" by simp
    ultimately have "f x \<in> set w" by (metis nth_mem)
    with assms(2) b show "take n (map f a) = w" by auto
  next
    assume "take n (map f a) = w"
    with assms(1) False show "take n (map f (a @ b)) = w" by auto
  qed
qed

lemma trimEnd_decomp: "\<exists>b. s = trimEnd s @ b \<and> (\<forall>x\<in>set b. isWhiteSpace x)"
proof -
  have "rev s = takeWhile isWhiteSpace (rev s) @ dropWhile isWhiteSpace (rev s)" by simp
  then have "s = rev (dropWhile isWhiteSpace (rev s)) @ rev (takeWhile isWhiteSpace (rev s))"
    by (metis rev_append rev_rev_ident)
  moreover have "\<forall>x\<in>set (rev (takeWhile isWhiteSpace (rev s))). isWhiteSpace x"
    by (auto dest: set_takeWhileD)
  ultimately show ?thesis unfolding trimEnd_def by blast
qed

lemma starts_select_trim:
  "startsWith (toLowerCase (trim s)) ''select'' \<longleftrightarrow>
   startsWith (toLowerCase (trimStart s)) ''select''"
proof -
  obtain b where b: "trimStart s = trim s @ b" "\<forall>x\<in>set b. isWhiteSpace x"
    using trimEnd_decomp [of "trimStart s"] unfolding trim_def by blast
  have "\<forall>x\<in>set b. toLowerCase_unit x \<notin> set ''select''"
    using b(2) white_space_not_in_select by blast
  from take_map_append_iff [OF refl this, of "trim s", symmetric]
  show ?thesis unfolding startsWith_def toLowerCase_def b(1) .
qed

text \<open>The search finds a match that stands behind any prefix.\<close>

lemma search_append:
  "match_here (if pre = [] then prev else Some (last pre)) s \<Longrightarrow> search prev (pre @ s)"
proof (induction pre arbitrary: prev)
  case Nil
  then show ?case by (cases s) auto
next
  case (Cons c pre)
  then show ?case by (auto split: if_splits)
qed

text \<open>A code unit whose lower case is that of an ASCII capital is that capital or its
  small letter: the pattern's comparison accepts it, and it is a word character.\<close>

lemma of_char_toLowerCase_unit:
  "of_char (toLowerCase_unit x) =
     (if (65 \<le> (of_char x :: nat) \<and> (of_char x :: nat) \<le> 90) \<or>
         (192 \<le> (of_char x :: nat) \<and> (of_char x :: nat) \<le> 214) \<or>
         (216 \<le> (of_char x :: nat) \<and> (of_char x :: nat) \<le> 222)
      then of_char x + 32 else (of_char x :: nat))"
  by (simp add: toLowerCase_unit_def Let_def)

lemma lower_eq_canonical:
  assumes "toLowerCase_unit c = toLowerCase_unit k" and "ascii_upper k"
  shows "Canonicalize c = Canonicalize k \<and> isWordChar c"
proof -
  from assms(1) have "(of_char (toLowerCase_unit c) :: nat) = of_char (toLowerCase_unit k)"
    by simp
  with assms(2) have "(of_char c :: nat) = of_char k \<or> (of_char c :: nat) = of_char k + 32"
    unfolding of_char_toLowerCase_unit ascii_upper_def by (simp split: if_splits)
  with assms(2) show ?thesis
    unfolding Canonicalize_def isWordChar_def ascii_upper_def Let_def by auto
qed

lemma keyword_units_upper:
  "k \<in> set dangerous_keywords \<Longrightarrow> \<forall>x\<in>set k. ascii_upper x"
  by (auto simp add: dangerous_keywords_def ascii_upper_def)

lemma match_literal_ci:
  "map toLowerCase_unit kw = map toLowerCase_unit k \<Longrightarrow> \<forall>x\<in>set k. ascii_upper x \<Longrightarrow>
     match_literal k (kw @ rest) = Some rest"
proof (induction k arbitrary: kw)
  case Nil
  then show ?case by simp
next
  case (Cons x k)
  then obtain c cs where kw: "kw = c # cs" by (cases kw) auto
  with Cons.prems have "toLowerCase_unit c = toLowerCase_unit x" "ascii_upper x"
    "map toLowerCase_unit cs = map toLowerCase_unit k" "\<forall>x\<in>set k. ascii_upper x"
    by auto
  with Cons.IH [of cs] lower_eq_canonical [of c x] show ?case by (simp add: kw)
qed

lemma keyword_found:
  assumes "sql = pre @ kw @ w # post"
    and "toLowerCase kw \<in> set (map toLowerCase dangerous_keywords)"
    and "pre = [] \<or> \<not> isWordChar (last pre)"
    and "isWhiteSpace w"
  shows "isDangerous sql"
proof -
  from assms(2) obtain k where k: "k \<in> set dangerous_keywords" "toLowerCase kw = toLowerCase k"
    by auto
  then have eq: "map toLowerCase_unit kw = map toLowerCase_unit k" by (simp add: toLowerCase_def)
  have up: "\<forall>x\<in>set k. ascii_upper x" using k(1) by (rule keyword_units_upper)
  have "k \<noteq> []" using k(1) by (auto simp add: dangerous_keywords_def)
  with eq obtain c cs x xs where kw: "kw = c # cs" and kx: "k = x # xs"
    by (cases kw; cases k) auto
  with eq up have "isWordChar c" using lower_eq_canonical [of c x] by simp
  with assms(3) have wb: "word_boundary (if pre = [] then None else Some (last pre)) (kw @ w # post)"
    by (auto simp add: word_boundary_def kw)
  have "match_literal k (kw @ w # post) = Some (w # post)"
    using eq up by (rule match_literal_ci)
  with assms(4)
  have "case match_literal k (kw @ w # post) of None \<Rightarrow> False | Some rest \<Rightarrow> white_space_plus rest"
    by (simp add: white_space_plus_def)
  with k(1) wb
  have "match_here (if pre = [] then None else Some (last pre)) (kw @ w # post)"
    unfolding match_here_def list_ex_iff by blast
  then have "search None (pre @ kw @ w # post)" by (rule search_append)
  then show ?thesis
    by (simp add: isDangerous_def dangerousPatterns_def dangerous_pattern_test_def assms(1))
qed

text \<open>
  C1. Let the call carry the SQL text \<open>sql\<close>, and let \<open>sql\<close> hold one of DROP, DELETE,
  TRUNCATE, ALTER, CREATE, INSERT, UPDATE in any mix of cases (\<open>kw\<close>), as a whole word (at
  the start of the text or after a code unit that is no word character) followed by a
  white space unit (\<open>w\<close>). If \<open>sql\<close>, with its leading white space trimmed and in lower
  case, does not begin with \<^verbatim>\<open>select\<close>, then the pattern test holds and \<^verbatim>\<open>executeQuery\<close>
  fails with \<^verbatim>\<open>InvalidParams\<close> and the message "Only SELECT queries are allowed for
  security reasons" (the text of line 224; the spec quotes it inside a sentence), the pool
  untouched.
\<close>

theorem mutating_keyword_rejected:
  assumes "QuerySchema args = Inr (sql, params)"
    and "sql = pre @ kw @ w # post"
    and "toLowerCase kw \<in> set (map toLowerCase dangerous_keywords)"
    and "pre = [] \<or> \<not> isWordChar (last pre)"
    and "isWhiteSpace w"
    and "\<not> startsWith (toLowerCase (trimStart sql)) ''select''"
  shows "isDangerous sql \<and>
         executeQuery d args p =
           (Inl (McpError InvalidParams
              (Text ''Only SELECT queries are allowed for security reasons'')), p)"
proof -
  have "isDangerous sql" using assms(2-5) by (rule keyword_found)
  moreover have "\<not> startsWith (toLowerCase (trim sql)) ''select''"
    using assms(6) by (simp add: starts_select_trim)
  ultimately show ?thesis using assms(1) by (simp add: executeQuery_def)
qed

theorem mutating_keyword_rejected_witness:
  "isDangerous ''explain analyze Delete  from weather_data'' \<and>
   executeQuery empty_database
       (Some (JObj [(''sql'', JStr ''explain analyze Delete  from weather_data'')])) fresh_pool =
     (Inl (McpError InvalidParams
        (Text ''Only SELECT queries are allowed for security reasons'')), fresh_pool)"
proof -
  have 1: "QuerySchema (Some (JObj [(''sql'', JStr ''explain analyze Delete  from weather_data'')])) =
             Inr (''explain analyze Delete  from weather_data'', [])"
    by (simp add: QuerySchema_def zod_defs)
  have 2: "''explain analyze Delete  from weather_data'' =
             ''explain analyze '' @ ''Delete'' @ CHR '' '' # '' from weather_data''"
    by simp
  have 3: "toLowerCase ''Delete'' \<in> set (map toLowerCase dangerous_keywords)"
    by code_simp
  have 4: "''explain analyze '' = [] \<or> \<not> isWordChar (last ''explain analyze '')"
    by code_simp
  have 5: "isWhiteSpace (CHR '' '')"
    by code_simp
  have 6: "\<not> startsWith (toLowerCase (trimStart ''explain analyze Delete  from weather_data''))
             ''select''"
    by code_simp
  show ?thesis by (rule mutating_keyword_rejected [OF 1 2 3 4 5 6])
qed

text \<open>
  C2. If the SQL text of the call, with its leading white space trimmed and in lower case,
  begins with \<^verbatim>\<open>select\<close>, the condition of the guard is false whatever else the text
  holds: \<^verbatim>\<open>executeQuery\<close> does not fail with the guard's error and goes on to ask the
  pool for a connection.
\<close>

theorem select_prefix_allowed:
  assumes "QuerySchema args = Inr (sql, params)"
    and "startsWith (toLowerCase (trimStart sql)) ''select''"
  shows "\<not> (isDangerous sql \<and> \<not> startsWith (toLowerCase (trim sql)) ''select'') \<and>
         fst (executeQuery d args p) \<noteq>
           Inl (McpError InvalidParams
             (Text ''Only SELECT queries are allowed for security reasons'')) \<and>
         connect_calls (snd (executeQuery d args p)) = connect_calls p + 1"
proof -
  have s: "startsWith (toLowerCase (trim sql)) ''select''"
    using assms(2) by (simp add: starts_select_trim)
  then show ?thesis using assms(1)
    by (simp add: executeQuery_def pool_defs split: option.splits sum.splits prod.splits)
qed

theorem select_prefix_allowed_witness:
  "isDangerous ''  SeLeCT 1; DROP TABLE weather_data'' \<and>
   \<not> (isDangerous ''  SeLeCT 1; DROP TABLE weather_data'' \<and>
      \<not> startsWith (toLowerCase (trim ''  SeLeCT 1; DROP TABLE weather_data'')) ''select'') \<and>
   fst (executeQuery empty_database
     (Some (JObj [(''sql'', JStr ''  SeLeCT 1; DROP TABLE weather_data'')])) fresh_pool) \<noteq>
     Inl (McpError InvalidParams (Text ''Only SELECT queries are allowed for security reasons'')) \<and>
   connect_calls (snd (executeQuery empty_database
     (Some (JObj [(''sql'', JStr ''  SeLeCT 1; DROP TABLE weather_data'')])) fresh_pool)) =
     connect_calls fresh_pool + 1"
proof -
  have 1: "QuerySchema (Some (JObj [(''sql'', JStr ''  SeLeCT 1; DROP TABLE weather_data'')])) =
             Inr (''  SeLeCT 1; DROP TABLE weather_data'', [])"
    by (simp add: QuerySchema_def zod_defs)
  have 2: "startsWith (toLowerCase (trimStart ''  SeLeCT 1; DROP TABLE weather_data'')) ''select''"
    by code_simp
  have 3: "isDangerous ''  SeLeCT 1; DROP TABLE weather_data''"
    by code_simp
  show ?thesis using 3 select_prefix_allowed [OF 1 2, of empty_database fresh_pool] by blast
qed

text \<open>
  C3. When the guard rejects the SQL text of a \<^verbatim>\<open>query_database\<close> call, the call fails
  with \<^verbatim>\<open>InvalidParams\<close> and the pool is left as it was: \<^verbatim>\<open>connect\<close> is not called, no
  client is handed out and no statement is sent. \<^verbatim>\<open>DROP TABLE weather_data\<close> is such a
  text.
\<close>

theorem rejected_sql_never_reaches_pool:
  assumes "QuerySchema args = Inr (sql, params)"
    and "isDangerous sql" and "\<not> startsWith (toLowerCase (trim sql)) ''select''"
  shows "callTool d ''query_database'' args p =
           (Inl (McpError InvalidParams
              (Text ''Only SELECT queries are allowed for security reasons'')), p)"
  using assms by (simp add: callTool_def switch_tool_def executeQuery_def)

theorem rejected_sql_never_reaches_pool_witness:
  "callTool empty_database ''query_database''
       (Some (JObj [(''sql'', JStr ''DROP TABLE weather_data'')])) fresh_pool =
     (Inl (McpError InvalidParams
        (Text ''Only SELECT queries are allowed for security reasons'')), fresh_pool)"
proof -
  have 1: "QuerySchema (Some (JObj [(''sql'', JStr ''DROP TABLE weather_data'')])) =
             Inr (''DROP TABLE weather_data'', [])"
    by (simp add: QuerySchema_def zod_defs)
  have 2: "isDangerous ''DROP TABLE weather_data''"
    by code_simp
  have 3: "\<not> startsWith (toLowerCase (trim ''DROP TABLE weather_data'')) ''select''"
    by code_simp
  show ?thesis by (rule rejected_sql_never_reaches_pool [OF 1 2 3])
qed

text \<open>
  C10. There is an SQL text that does not begin with \<^verbatim>\<open>select\<close> and holds a keyword of
  the pattern directly followed by a code unit that is no white space, which the guard
  lets through: \<^verbatim>\<open>DELETE/**/FROM t\<close>, where a comment follows the keyword. The pattern
  asks for a white space unit after the keyword, so its test fails, and for every database
  and pool \<^verbatim>\<open>executeQuery\<close> goes on to the pool; on a database that answers, the statement
  is sent. The bare keyword \<^verbatim>\<open>DROP\<close>, followed by nothing, passes the test as well.
\<close>

theorem keyword_without_white_space_allowed:
  "(\<exists>sql kw c rest.
      sql = kw @ c # rest \<and> kw \<in> set dangerous_keywords \<and> \<not> isWhiteSpace c \<and>
      \<not> startsWith (toLowerCase (trimStart sql)) ''select'' \<and>
      \<not> isDangerous sql \<and>
      (\<forall>d p. fst (executeQuery d (Some (JObj [(''sql'', JStr sql)])) p) \<noteq>
                Inl (McpError InvalidParams
                  (Text ''Only SELECT queries are allowed for security reasons'')) \<and>
              connect_calls (snd (executeQuery d (Some (JObj [(''sql'', JStr sql)])) p)) =
                connect_calls p + 1) \<and>
      queries (snd (executeQuery empty_database (Some (JObj [(''sql'', JStr sql)])) fresh_pool)) =
        [(sql, [])]) \<and>
   \<not> isDangerous ''DROP''"
proof -
  let ?sql = "''DELETE/**/FROM t''"
  have 1: "?sql = ''DELETE'' @ CHR ''/'' # ''**/FROM t''" by simp
  have 2: "''DELETE'' \<in> set dangerous_keywords" by (simp add: dangerous_keywords_def)
  have 3: "\<not> isWhiteSpace (CHR ''/'')" by code_simp
  have 4: "\<not> startsWith (toLowerCase (trimStart ?sql)) ''select''" by code_simp
  have 5: "\<not> isDangerous ?sql" by code_simp
  have q: "QuerySchema (Some (JObj [(''sql'', JStr ?sql)])) = Inr (?sql, [])"
    by (simp add: QuerySchema_def zod_defs)
  have 6: "fst (executeQuery d (Some (JObj [(''sql'', JStr ?sql)])) p) \<noteq>
             Inl (McpError InvalidParams
               (Text ''Only SELECT queries are allowed for security reasons'')) \<and>
           connect_calls (snd (executeQuery d (Some (JObj [(''sql'', JStr ?sql)])) p)) =
             connect_calls p + 1" for d p
    using 5 by (simp add: executeQuery_def q pool_defs split: option.splits sum.splits prod.splits)
  have 7: "queries (snd (executeQuery empty_database (Some (JObj [(''sql'', JStr ?sql)])) fresh_pool)) =
             [(?sql, [])]"
    using 5 by (simp add: executeQuery_def q pool_defs empty_database_def fresh_pool_def)
  have 8: "\<not> isDangerous ''DROP''" by code_simp
  from 1 2 3 4 5 6 7 8 show ?thesis by blast
qed

section \<open>Connections and results\<close>

lemma executeQuery_balanced: "one_in_one_out p (snd (executeQuery d args p))"
  by (simp add: one_in_one_out_def executeQuery_def pool_defs
      split: sum.splits option.splits prod.splits)

lemma listTables_balanced: "one_in_one_out p (snd (listTables d args p))"
  by (simp add: one_in_one_out_def listTables_def pool_defs
      split: sum.splits option.splits prod.splits)

lemma describeTable_balanced: "one_in_one_out p (snd (describeTable d args p))"
  by (simp add: one_in_one_out_def describeTable_def pool_defs
      split: sum.splits option.splits prod.splits)

lemma getTableData_balanced: "one_in_one_out p (snd (getTableData d args p))"
  by (simp add: one_in_one_out_def getTableData_def pool_defs
      split: sum.splits option.splits prod.splits)

lemma snd_callTool: "snd (callTool d tool args p) = snd (switch_tool d tool args p)"
  by (simp add: callTool_def split: prod.splits sum.splits thrown.splits)

text \<open>
  C4. For every tool name, every arguments, every behaviour of the database and every
  state of the pool, one dispatch either hands out no client and releases none, or hands
  out one client and releases one: the clients acquired and the clients released grow by
  the same number, failures of the statement included.
\<close>

theorem acquire_release_balanced:
  "(acquired (snd (callTool d tool args p)) = acquired p \<and>
    released (snd (callTool d tool args p)) = released p) \<or>
   (acquired (snd (callTool d tool args p)) = acquired p + 1 \<and>
    released (snd (callTool d tool args p)) = released p + 1)"
  using executeQuery_balanced [of p d args] listTables_balanced [of p d args]
    describeTable_balanced [of p d args] getTableData_balanced [of p d args]
  by (simp add: snd_callTool switch_tool_def one_in_one_out_def)

theorem acquire_release_balanced_witness:
  "callTool failing_database ''describe_table'' (Some (JObj [(''table'', JStr ''weather_data'')]))
       fresh_pool =
     (Inl (McpError InternalError (Text ''Failed to execute describe_table: connection terminated'')),
      \<lparr>connect_calls = 1, acquired = 1, released = 1,
       queries = [(columns_sql, [JStr ''public'', JStr ''weather_data''])]\<rparr>) \<and>
   ((acquired (snd (callTool failing_database ''describe_table''
        (Some (JObj [(''table'', JStr ''weather_data'')])) fresh_pool)) = acquired fresh_pool \<and>
     released (snd (callTool failing_database ''describe_table''
        (Some (JObj [(''table'', JStr ''weather_data'')])) fresh_pool)) = released fresh_pool) \<or>
    (acquired (snd (callTool failing_database ''describe_table''
        (Some (JObj [(''table'', JStr ''weather_data'')])) fresh_pool)) = acquired fresh_pool + 1 \<and>
     released (snd (callTool failing_database ''describe_table''
        (Some (JObj [(''table'', JStr ''weather_data'')])) fresh_pool)) = released fresh_pool + 1))"
proof -
  have "callTool failing_database ''describe_table'' (Some (JObj [(''table'', JStr ''weather_data'')]))
          fresh_pool =
        (Inl (McpError InternalError (Text ''Failed to execute describe_table: connection terminated'')),
         \<lparr>connect_calls = 1, acquired = 1, released = 1,
          queries = [(columns_sql, [JStr ''public'', JStr ''weather_data''])]\<rparr>)"
    by (simp add: callTool_def switch_tool_def describeTable_def TableSchema_required_table_def
        zod_defs pool_defs failing_database_def fresh_pool_def)
  with acquire_release_balanced [of failing_database "''describe_table''"
      "Some (JObj [(''table'', JStr ''weather_data'')])" fresh_pool]
  show ?thesis by blast
qed

lemma field_json_fun:
  "field_json = (\<lambda>f. JObj [(''name'', JStr (name f)), (''dataTypeID'', JNum (of_int (dataTypeID f)))])"
  by (rule ext) (simp add: field_json_def)

text \<open>
  C6, as the spec has it: every successful \<^verbatim>\<open>query_database\<close> call has a payload with the
  keys \<^verbatim>\<open>rows\<close>, \<^verbatim>\<open>rowCount\<close> and \<^verbatim>\<open>fields\<close>. The text \<^verbatim>\<open>SELECT 1; SELECT 2\<close> passes
  the guard and goes out with the default parameters \<^verbatim>\<open>[]\<close>; the driver answers with the
  array of two results, on which the three properties are \<^verbatim>\<open>undefined\<close>, and the call
  succeeds with the payload \<^verbatim>\<open>{}\<close>.
\<close>

theorem array_result_payload_counterexample:
  "callTool two_statement_database ''query_database''
       (Some (JObj [(''sql'', JStr ''SELECT 1; SELECT 2'')])) fresh_pool =
     (Inr (text_response (JObj [])),
      \<lparr>connect_calls = 1, acquired = 1, released = 1,
       queries = [(''SELECT 1; SELECT 2'', [])]\<rparr>)"
proof -
  have "\<not> isDangerous ''SELECT 1; SELECT 2''" by code_simp
  then show ?thesis
    by (simp add: callTool_def switch_tool_def executeQuery_def QuerySchema_def zod_defs pool_defs
        result_defs two_statement_database_def fresh_pool_def)
qed

text \<open>
  C6, amended: a \<^verbatim>\<open>query_database\<close> call that passes validation and the guard, gets a
  client and is answered by the driver with one result succeeds, and its payload is the
  object with the keys \<^verbatim>\<open>rows\<close>, \<^verbatim>\<open>rowCount\<close> and \<^verbatim>\<open>fields\<close>, in this order, built from that
  result, each field an object with the keys \<^verbatim>\<open>name\<close> and \<^verbatim>\<open>dataTypeID\<close>; a result
  without rows is no exception. And every successful call was answered by the driver for
  the SQL text of the call, and has this payload when the answer is one result.
\<close>

theorem single_result_payload_keys:
  "(QuerySchema args = Inr (sql, params) \<and>
    \<not> (isDangerous sql \<and> \<not> startsWith (toLowerCase (trim sql)) ''select'') \<and>
    connect d p = None \<and>
    query d (snd (pool_connect d p)) sql params = Inr (Result result) \<longrightarrow>
      fst (callTool d ''query_database'' args p) =
        Inr (text_response (JObj
          [(''rows'', JArr (rows result)),
           (''rowCount'', (case rowCount result of None \<Rightarrow> JNull | Some n \<Rightarrow> JNum (of_int n))),
           (''fields'', JArr (map (\<lambda>f. JObj [(''name'', JStr (name f)),
                                              (''dataTypeID'', JNum (of_int (dataTypeID f)))])
                                (fields result)))]))) \<and>
   (callTool d ''query_database'' args p = (Inr response, p') \<longrightarrow>
      (\<exists>text values answer.
         QuerySchema args = Inr (text, values) \<and>
         query d (snd (pool_connect d p)) text values = Inr answer \<and>
         (\<forall>r. answer = Result r \<longrightarrow>
            response = text_response (JObj
              [(''rows'', JArr (rows r)),
               (''rowCount'', (case rowCount r of None \<Rightarrow> JNull | Some n \<Rightarrow> JNum (of_int n))),
               (''fields'', JArr (map (\<lambda>f. JObj [(''name'', JStr (name f)),
                                                  (''dataTypeID'', JNum (of_int (dataTypeID f)))])
                                    (fields r)))]))))"
proof (intro conjI impI)
  assume "QuerySchema args = Inr (sql, params) \<and>
    \<not> (isDangerous sql \<and> \<not> startsWith (toLowerCase (trim sql)) ''select'') \<and>
    connect d p = None \<and>
    query d (snd (pool_connect d p)) sql params = Inr (Result result)"
  then show "fst (callTool d ''query_database'' args p) =
        Inr (text_response (JObj
          [(''rows'', JArr (rows result)),
           (''rowCount'', (case rowCount result of None \<Rightarrow> JNull | Some n \<Rightarrow> JNum (of_int n))),
           (''fields'', JArr (map (\<lambda>f. JObj [(''name'', JStr (name f)),
                                              (''dataTypeID'', JNum (of_int (dataTypeID f)))])
                                (fields result)))]))"
    by (auto simp add: callTool_def switch_tool_def executeQuery_def pool_defs result_defs
        field_json_fun)
next
  assume "callTool d ''query_database'' args p = (Inr response, p')"
  then show "\<exists>text values answer.
         QuerySchema args = Inr (text, values) \<and>
         query d (snd (pool_connect d p)) text values = Inr answer \<and>
         (\<forall>r. answer = Result r \<longrightarrow>
            response = text_response (JObj
              [(''rows'', JArr (rows r)),
               (''rowCount'', (case rowCount r of None \<Rightarrow> JNull | Some n \<Rightarrow> JNum (of_int n))),
               (''fields'', JArr (map (\<lambda>f. JObj [(''name'', JStr (name f)),
                                                  (''dataTypeID'', JNum (of_int (dataTypeID f)))])
                                    (fields r)))]))"
    by (auto simp add: callTool_def switch_tool_def executeQuery_def pool_defs result_defs
        field_json_fun split: sum.splits option.splits prod.splits thrown.splits if_splits)
qed

theorem single_result_payload_keys_witness:
  "fst (callTool empty_database ''query_database''
      (Some (JObj [(''sql'', JStr ''SELECT 1 WHERE false'')])) fresh_pool) =
     Inr (text_response (JObj [(''rows'', JArr []), (''rowCount'', JNum 0), (''fields'', JArr [])]))"
proof -
  let ?sql = "''SELECT 1 WHERE false''"
  have 1: "QuerySchema (Some (JObj [(''sql'', JStr ?sql)])) = Inr (?sql, [])"
    by (simp add: QuerySchema_def zod_defs)
  have 2: "\<not> (isDangerous ?sql \<and> \<not> startsWith (toLowerCase (trim ?sql)) ''select'')"
    by code_simp
  have 3: "connect empty_database fresh_pool = None"
    by (simp add: empty_database_def)
  have 4: "query empty_database (snd (pool_connect empty_database fresh_pool)) ?sql [] =
             Inr (Result (QueryResult [] (Some 0) []))"
    by (simp add: empty_database_def)
  from single_result_payload_keys [of "Some (JObj [(''sql'', JStr ?sql)])" ?sql "[]"
      empty_database fresh_pool "QueryResult [] (Some 0) []"] 1 2 3 4
  show ?thesis by simp
qed

section \<open>The tables of a schema\<close>

lemma words_of_listTables_sql:
  "sql_words [] listTables_sql = select_tables_of_schema @ [''ORDER'', ''BY'', ''table_name'']"
  by code_simp

lemma select_tables_unordered:
  "select_tables_of_schema @ [''ORDER'', ''BY'', ''table_name''] \<noteq> select_tables_of_schema"
  by simp

lemma table_name_tables_row: "map table_name (map tables_row rs) = map rel_name rs"
  by (simp add: table_name_def tables_row_def)

lemma listTables_on_database:
  assumes "TableSchema args = Inr (schema, t)"
  shows "listTables (database catalog) args p =
           (Inr (text_response (JObj
              [(''schema'', JStr schema),
               (''tables'', JArr (map tables_row
                  (sort_key rel_name (filter (\<lambda>r. rel_schema r = schema) catalog))))])),
            p\<lparr>connect_calls := connect_calls p + 1, acquired := acquired p + 1,
              released := released p + 1,
              queries := queries p @ [(listTables_sql, [JStr schema])]\<rparr>)"
  using assms select_tables_unordered
  by (simp add: listTables_def pool_defs result_defs database_def run_statement_def
      words_of_listTables_sql tables_result_def)

text \<open>
  C8. On a database that holds a catalog of tables and runs the statement of
  \<^verbatim>\<open>listTables\<close> as SQL reads it, \<^verbatim>\<open>list_tables\<close> returns the tables of the requested
  schema, in ascending order of their names: the statement sent ends in
  \<^verbatim>\<open>ORDER BY table_name\<close>, and the handler passes the rows on in the order of the result.
  A second call with the same arguments on the same catalog, from the state of the pool
  that the first call left, returns the same response.
\<close>

theorem list_tables_sorted_and_idempotent:
  assumes "TableSchema args = Inr (schema, t)"
  shows "fst (callTool (database catalog) ''list_tables'' args p) =
           Inr (text_response (JObj
              [(''schema'', JStr schema),
               (''tables'', JArr (map tables_row
                  (sort_key rel_name (filter (\<lambda>r. rel_schema r = schema) catalog))))])) \<and>
         sorted (map table_name
           (response_tables (fst (callTool (database catalog) ''list_tables'' args p)))) \<and>
         set (response_tables (fst (callTool (database catalog) ''list_tables'' args p))) =
           tables_row ` {r \<in> set catalog. rel_schema r = schema} \<and>
         fst (callTool (database catalog) ''list_tables'' args
                (snd (callTool (database catalog) ''list_tables'' args p))) =
           fst (callTool (database catalog) ''list_tables'' args p)"
proof -
  have call: "callTool (database catalog) ''list_tables'' args q =
                listTables (database catalog) args q" for q
    by (simp add: callTool_def switch_tool_def listTables_on_database [OF assms])
  have tables: "response_tables (fst (listTables (database catalog) args q)) =
                  map tables_row (sort_key rel_name (filter (\<lambda>r. rel_schema r = schema) catalog))"
    for q
    by (simp add: listTables_on_database [OF assms] response_tables_def text_response_def)
  have "sorted (map rel_name (sort_key rel_name (filter (\<lambda>r. rel_schema r = schema) catalog)))"
    by (rule sorted_sort_key)
  then have "sorted (map table_name
      (map tables_row (sort_key rel_name (filter (\<lambda>r. rel_schema r = schema) catalog))))"
    by (simp only: table_name_tables_row)
  moreover have "set (map tables_row (sort_key rel_name (filter (\<lambda>r. rel_schema r = schema) catalog))) =
      tables_row ` {r \<in> set catalog. rel_schema r = schema}"
    by auto
  ultimately show ?thesis
    unfolding call tables by (simp add: listTables_on_database [OF assms])
qed

theorem list_tables_sorted_and_idempotent_witness:
  "fst (callTool (database weather_catalog) ''list_tables''
      (Some (JObj [(''schema'', JStr ''public'')])) fresh_pool) =
     Inr (text_response (JObj [(''schema'', JStr ''public''), (''tables'', JArr
       [JObj [(''table_name'', JStr ''stations''), (''table_type'', JStr ''BASE TABLE'')],
        JObj [(''table_name'', JStr ''weather_data''), (''table_type'', JStr ''BASE TABLE'')]])])) \<and>
   fst (callTool (database weather_catalog) ''list_tables''
      (Some (JObj [(''schema'', JStr ''public'')]))
      (snd (callTool (database weather_catalog) ''list_tables''
         (Some (JObj [(''schema'', JStr ''public'')])) fresh_pool))) =
     fst (callTool (database weather_catalog) ''list_tables''
      (Some (JObj [(''schema'', JStr ''public'')])) fresh_pool)"
proof -
  have 1: "TableSchema (Some (JObj [(''schema'', JStr ''public'')])) = Inr (''public'', None)"
    by (simp add: TableSchema_def zod_defs)
  have 2: "map tables_row (sort_key rel_name (filter (\<lambda>r. rel_schema r = ''public'') weather_catalog)) =
      [JObj [(''table_name'', JStr ''stations''), (''table_type'', JStr ''BASE TABLE'')],
       JObj [(''table_name'', JStr ''weather_data''), (''table_type'', JStr ''BASE TABLE'')]]"
    by code_simp
  from list_tables_sorted_and_idempotent [OF 1, of weather_catalog fresh_pool]
  show ?thesis unfolding 2 by blast
qed

end
